theory Spec2Isabelle
  imports Complex_Main "HOL-Library.Sublist" "HOL-Library.AList"
begin

section \<open>JSON values\<close>

text \<open>
  The dashboard and the service exchange JSON documents. A decoded document is a Python
  value: \<open>None\<close>, a \<open>bool\<close>, an \<open>int\<close>, a \<open>float\<close>, a \<open>str\<close>, a \<open>list\<close> or a
  \<open>dict\<close> with string keys. A \<open>dict\<close> is kept as an association list in insertion
  order; a key is looked up with \<open>map_of\<close>. Floats are kept as reals: no claim below
  depends on rounding.
\<close>

datatype json =
    JNull
  | JBool bool
  | JInt int
  | JFloat real
  | JStr string
  | JList "json list"
  | JDict "(string \<times> json) list"

text \<open>\<open>isinstance(v, dict)\<close> and \<open>isinstance(v, list)\<close>.\<close>

fun is_dict :: "json \<Rightarrow> bool" where
  "is_dict (JDict kvs) = True"
| "is_dict v = False"

fun is_list :: "json \<Rightarrow> bool" where
  "is_list (JList xs) = True"
| "is_list v = False"

text \<open>An exception of Python: its class and the text \<open>str(e)\<close> gives.\<close>

datatype exn = Exn (exn_class: string) (exn_str: string)

section \<open>The dashboard: normalising an uploaded document\<close>

text \<open>
  \<^verbatim>\<open>
  def normalize_uploaded_json(uploaded_json):
      if isinstance(uploaded_json, dict):
          if "input_batch" in uploaded_json and isinstance(uploaded_json["input_batch"], list):
              return uploaded_json["input_batch"]
          if "input" in uploaded_json and isinstance(uploaded_json["input"], dict):
              return uploaded_json["input"]
          return uploaded_json
      elif isinstance(uploaded_json, list):
          return uploaded_json
      else:
          raise ValueError("Uploaded JSON not recognized. Provide a dict or a list of dicts.")
  \<close>
\<close>

definition not_recognized :: exn where
  "not_recognized =
     Exn ''ValueError'' ''Uploaded JSON not recognized. Provide a dict or a list of dicts.''"

fun normalize_uploaded_json :: "json \<Rightarrow> exn + json" where
  "normalize_uploaded_json (JDict kvs) =
     (case map_of kvs ''input_batch'' of
        Some (JList recs) \<Rightarrow> Inr (JList recs)
      | _ \<Rightarrow>
        (case map_of kvs ''input'' of
           Some (JDict record) \<Rightarrow> Inr (JDict record)
         | _ \<Rightarrow> Inr (JDict kvs)))"
| "normalize_uploaded_json (JList recs) = Inr (JList recs)"
| "normalize_uploaded_json v = Inl not_recognized"

section \<open>The dashboard: one round trip\<close>

text \<open>
  A \<open>requests.Response\<close> as the dashboard reads it: the status, the body as text, and
  what \<open>resp.json()\<close> gives (\<open>None\<close> when decoding raises).
\<close>

record response =
  status_code :: int
  resp_text :: string
  resp_json :: "json option"

text \<open>\<open>requests.post\<close> either raises (connection error, timeout) or returns a response.\<close>

datatype outcome = Raised exn | Responded response

text \<open>
  The network is a parameter: \<open>post url payload timeout w\<close> gives the outcome of the
  request, the wall-clock seconds the round trip took, and the next state of the world.
  Every round trip is written to a log beside the world, so that the requests a function
  made can be counted and read.
\<close>

type_synonym 'w post = "string \<Rightarrow> json \<Rightarrow> real \<Rightarrow> 'w \<Rightarrow> (outcome \<times> real) \<times> 'w"

record roundtrip =
  rt_url :: string
  rt_payload :: json
  rt_timeout :: real
  rt_outcome :: outcome
  rt_seconds :: real

type_synonym 'w net = "'w \<times> roundtrip list"

definition FASTAPI_BACKEND_ENDPOINT :: string where
  "FASTAPI_BACKEND_ENDPOINT = ''http://localhost:8000''"

text \<open>
  \<^verbatim>\<open>
  def call_api(endpoint: str, payload: dict, timeout: float = 15.0):
      start = time.time()
      resp = requests.post(f"{FASTAPI_BACKEND_ENDPOINT}{endpoint}", json=payload, timeout=timeout)
      elapsed = time.time() - start
      return resp, elapsed
  \<close>
  When \<open>requests.post\<close> raises, the exception leaves \<open>call_api\<close> and no elapsed time
  is computed.
\<close>

definition call_api ::
  "'w post \<Rightarrow> string \<Rightarrow> json \<Rightarrow> 'w net \<Rightarrow> (exn + response \<times> real) \<times> 'w net" where
  "call_api post endpoint payload s =
     (case s of (w, trips) \<Rightarrow>
        (case post (FASTAPI_BACKEND_ENDPOINT @ endpoint) payload 15 w of
           ((out, secs), w') \<Rightarrow>
             (let s' = (w', trips @ [\<lparr>rt_url = FASTAPI_BACKEND_ENDPOINT @ endpoint,
                                      rt_payload = payload, rt_timeout = 15,
                                      rt_outcome = out, rt_seconds = secs\<rparr>])
              in case out of
                   Raised e \<Rightarrow> (Inl e, s')
                 | Responded resp \<Rightarrow> (Inr (resp, secs), s'))))"

section \<open>The dashboard: detecting the rejection of a batch\<close>

text \<open>
  \<open>str(v)\<close>: a \<open>str\<close> is itself; the text of any other value is left to the parameter
  \<open>render\<close>.
\<close>

fun py_str :: "(json \<Rightarrow> string) \<Rightarrow> json \<Rightarrow> string" where
  "py_str render (JStr s) = s"
| "py_str render v = render v"

text \<open>
  \<open>for d in detail\<close>: a list gives its elements, a dict its keys, a string its
  characters; any other value is not iterable and raises \<open>TypeError\<close> (\<open>None\<close> here).
\<close>

fun py_iter :: "json \<Rightarrow> json list option" where
  "py_iter (JList xs) = Some xs"
| "py_iter (JDict kvs) = Some (map (\<lambda>kv. JStr (fst kv)) kvs)"
| "py_iter (JStr s) = Some (map (\<lambda>c. JStr [c]) s)"
| "py_iter v = None"

text \<open>
  \<^verbatim>\<open>isinstance(d, dict) and "msg" in d and "dictionary or object" in str(d["msg"])\<close>
\<close>

fun entry_matches :: "(json \<Rightarrow> string) \<Rightarrow> json \<Rightarrow> bool" where
  "entry_matches render (JDict flds) =
     (case map_of flds ''msg'' of
        None \<Rightarrow> False
      | Some m \<Rightarrow> sublist ''dictionary or object'' (py_str render m))"
| "entry_matches render d = False"

text \<open>The loop over \<open>detail\<close>, which stops at the first entry that matches.\<close>

fun scan_detail :: "(json \<Rightarrow> string) \<Rightarrow> json list \<Rightarrow> bool" where
  "scan_detail render [] = False"
| "scan_detail render (d # ds) = (if entry_matches render d then True else scan_detail render ds)"

text \<open>
  \<^verbatim>\<open>
  try:
      err = resp.json()
      detail = err.get("detail", [])
      should_fallback = False
      for d in detail:
          if isinstance(d, dict) and "msg" in d and "dictionary or object" in str(d["msg"]):
              should_fallback = True
              break
  except Exception:
      should_fallback = False
  \<close>
  \<open>resp.json()\<close> may raise; \<open>err.get\<close> raises unless \<open>err\<close> is a dict; the loop raises
  when \<open>detail\<close> is not iterable.
\<close>

definition should_fallback :: "(json \<Rightarrow> string) \<Rightarrow> response \<Rightarrow> bool" where
  "should_fallback render resp =
     (case resp_json resp of
        None \<Rightarrow> False
      | Some (JDict err) \<Rightarrow>
          (let detail = (case map_of err ''detail'' of Some d \<Rightarrow> d | None \<Rightarrow> JList [])
           in case py_iter detail of
                None \<Rightarrow> False
              | Some ds \<Rightarrow> scan_detail render ds)
      | Some other \<Rightarrow> False)"

section \<open>The dashboard: batch with fallback\<close>

text \<open>
  The loop of the fallback path, with \<open>aggregated\<close> and \<open>elapsed_total\<close> as
  accumulators:
  \<^verbatim>\<open>
  for rec in records:
      try:
          single_resp, single_elapsed = call_api(endpoint, rec)
          elapsed_total += single_elapsed
      except Exception as e:
          aggregated.append({"error": f"Request failed: {e}", "input": rec})
          continue
      if isinstance(single_resp, requests.Response) and single_resp.status_code == 200:
          try:
              aggregated.append(single_resp.json())
          except:
              aggregated.append({"raw_text": single_resp.text})
      else:
          try:
              aggregated.append({"error": single_resp.json(), "status": single_resp.status_code})
          except:
              aggregated.append({"error": single_resp.text,
                                 "status": getattr(single_resp, "status_code", None)})
  \<close>
  What \<open>call_api\<close> returns is always a \<open>requests.Response\<close>.
\<close>

fun fallback_loop ::
  "'w post \<Rightarrow> string \<Rightarrow> json list \<Rightarrow> json list \<Rightarrow> real \<Rightarrow> 'w net
     \<Rightarrow> (json list \<times> real) \<times> 'w net" where
  "fallback_loop post endpoint [] aggregated elapsed_total s = ((aggregated, elapsed_total), s)"
| "fallback_loop post endpoint (rec # records) aggregated elapsed_total s =
     (case call_api post endpoint rec s of
        (Inl e, s') \<Rightarrow>
          fallback_loop post endpoint records
            (aggregated @ [JDict [(''error'', JStr (''Request failed: '' @ exn_str e)),
                                  (''input'', rec)]])
            elapsed_total s'
      | (Inr (single_resp, single_elapsed), s') \<Rightarrow>
          fallback_loop post endpoint records
            (aggregated @
               [if status_code single_resp = 200
                then (case resp_json single_resp of
                        Some j \<Rightarrow> j
                      | None \<Rightarrow> JDict [(''raw_text'', JStr (resp_text single_resp))])
                else (case resp_json single_resp of
                        Some j \<Rightarrow> JDict [(''error'', j),
                                          (''status'', JInt (status_code single_resp))]
                      | None \<Rightarrow> JDict [(''error'', JStr (resp_text single_resp)),
                                        (''status'', JInt (status_code single_resp))])])
            (elapsed_total + single_elapsed) s')"

text \<open>
  \<^verbatim>\<open>
  def try_batch_with_fallback(endpoint: str, records):
      elapsed_total = 0.0
      try:
          resp, elapsed = call_api(endpoint, records)
          elapsed_total += elapsed
      except Exception as e:
          return False, f"Request failed: {e}", elapsed_total
      if isinstance(resp, requests.Response) and resp.status_code == 200:
          try:
              return True, resp.json(), elapsed_total
          except Exception:
              return True, {"raw_text": resp.text}, elapsed_total
      if isinstance(resp, requests.Response) and resp.status_code == 422:
          ...
          if should_fallback:
              aggregated = []
              for rec in records: ...
              return True, aggregated, elapsed_total
      try:
          return False, resp.json(), elapsed_total
      except Exception:
          return False, resp.text if isinstance(resp, requests.Response) else str(resp), elapsed_total
  \<close>
  The result is the triple \<open>(success, result, elapsed_total_seconds)\<close>.
\<close>

definition try_batch_with_fallback ::
  "'w post \<Rightarrow> (json \<Rightarrow> string) \<Rightarrow> string \<Rightarrow> json list \<Rightarrow> 'w net
     \<Rightarrow> (bool \<times> json \<times> real) \<times> 'w net" where
  "try_batch_with_fallback post render endpoint records s =
     (case call_api post endpoint (JList records) s of
        (Inl e, s') \<Rightarrow> ((False, JStr (''Request failed: '' @ exn_str e), 0), s')
      | (Inr (resp, elapsed), s') \<Rightarrow>
          (let elapsed_total = 0 + elapsed
           in if status_code resp = 200
              then ((True,
                     (case resp_json resp of
                        Some j \<Rightarrow> j
                      | None \<Rightarrow> JDict [(''raw_text'', JStr (resp_text resp))]),
                     elapsed_total), s')
              else if status_code resp = 422 \<and> should_fallback render resp
              then (case fallback_loop post endpoint records [] elapsed_total s' of
                      ((aggregated, elapsed_total'), s'') \<Rightarrow>
                        ((True, JList aggregated, elapsed_total'), s''))
              else ((False,
                     (case resp_json resp of
                        Some j \<Rightarrow> j
                      | None \<Rightarrow> JStr (resp_text resp)),
                     elapsed_total), s')))"

section \<open>What the specification says of the batch client\<close>

text \<open>
  The signature of a rejected batch, in the words of the specification: the decoded error
  payload has at least one entry under \<open>detail\<close> whose \<open>msg\<close> contains the text
  "dictionary or object".
\<close>

definition msg_contains :: "(json \<Rightarrow> string) \<Rightarrow> json \<Rightarrow> bool" where
  "msg_contains render d =
     (case d of
        JDict flds \<Rightarrow>
          (case map_of flds ''msg'' of
             Some m \<Rightarrow> sublist ''dictionary or object'' (py_str render m)
           | None \<Rightarrow> False)
      | _ \<Rightarrow> False)"

definition has_signature :: "(json \<Rightarrow> string) \<Rightarrow> response \<Rightarrow> bool" where
  "has_signature render resp =
     (case resp_json resp of
        Some (JDict err) \<Rightarrow>
          (case map_of err ''detail'' of
             Some (JList ds) \<Rightarrow> list_ex (msg_contains render) ds
           | _ \<Rightarrow> False)
      | _ \<Rightarrow> False)"





text \<open>The round trip that \<open>call_api\<close> writes to the log.\<close>

definition trip :: "string \<Rightarrow> json \<Rightarrow> outcome \<Rightarrow> real \<Rightarrow> roundtrip" where
  "trip endpoint payload out secs =
     \<lparr>rt_url = FASTAPI_BACKEND_ENDPOINT @ endpoint, rt_payload = payload, rt_timeout = 15,
      rt_outcome = out, rt_seconds = secs\<rparr>"

text \<open>The seconds of a round trip that \<open>call_api\<close> measured: those that returned a response.\<close>

definition measured :: "roundtrip \<Rightarrow> real" where
  "measured t = (case rt_outcome t of Raised e \<Rightarrow> 0 | Responded r \<Rightarrow> rt_seconds t)"




section \<open>A service that accepts one record per request\<close>

text \<open>
  A 422 body with one entry under \<open>detail\<close>, whose \<open>msg\<close> begins with the text that
  the docstring of \<open>try_batch_with_fallback\<close> quotes: "Input should be a valid
  dictionary or object".
\<close>

definition object_expected :: json where
  "object_expected =
     JDict [(''detail'',
             JList [JDict [(''type'', JStr ''model_attributes_type''),
                           (''loc'', JList [JStr ''body'']),
                           (''msg'', JStr ''Input should be a valid dictionary or object to extract fields from'')]])]"

definition rejected :: response where
  "rejected = \<lparr>status_code = 422, resp_text = ''{detail: ...}'',
               resp_json = Some object_expected\<rparr>"

definition class_1 :: json where
  "class_1 = JDict [(''prediction'', JInt 1), (''class_name'', JStr ''class_1'')]"

definition predicted :: response where
  "predicted = \<lparr>status_code = 200, resp_text = ''{prediction: 1, ...}'',
                resp_json = Some class_1\<rparr>"

definition server_error :: response where
  "server_error = \<lparr>status_code = 500, resp_text = ''Internal Server Error'',
                   resp_json = None\<rparr>"

definition timed_out :: exn where
  "timed_out = Exn ''ReadTimeout'' ''Read timed out. (read timeout=15.0)''"

text \<open>
  The world is the number of requests made so far. The first request (the batch) is
  rejected with 422 after half a second, the second is answered, the third times out
  after 15 seconds, and every later one gets a 500 with a body that is not JSON.
\<close>

definition scripted :: "nat post" where
  "scripted url payload timeout n =
     (if n = 0 then ((Responded rejected, 1/2), Suc n)
      else if n = 1 then ((Responded predicted, 1/4), Suc n)
      else if n = 2 then ((Raised timed_out, 15), Suc n)
      else ((Responded server_error, 1/8), Suc n))"

text \<open>A service that answers every request with the same 500.\<close>

definition failing :: "unit post" where
  "failing url payload timeout w = ((Responded server_error, 1/8), w)"

text \<open>A \<open>render\<close> for the examples, in which every \<open>msg\<close> is a string, and three records.\<close>

definition no_render :: "json \<Rightarrow> string" where
  "no_render v = []"

definition rec_a :: json where
  "rec_a = JDict [(''alcohol'', JFloat 13)]"

definition rec_b :: json where
  "rec_b = JDict [(''alcohol'', JFloat 12)]"

definition rec_c :: json where
  "rec_c = JDict [(''alcohol'', JFloat 11)]"

section \<open>The service: what it runs on\<close>

text \<open>The request body of both endpoints, \<open>class WineData(BaseModel)\<close>: 13 floats.\<close>

record wine_data =
  alcohol :: real
  malic_acid :: real
  ash :: real
  alcalinity_of_ash :: real
  magnesium :: real
  total_phenols :: real
  flavanoids :: real
  nonflavanoid_phenols :: real
  proanthocyanins :: real
  color_intensity :: real
  hue :: real
  od280_od315_of_diluted_wines :: real
  proline :: real

text \<open>
  The model artifact is a black box with two methods, each of which may raise:
  \<open>model.predict(X)\<close> gives one label per row and \<open>model.predict_proba(X)\<close> one row of
  probabilities per row.
\<close>

record model =
  predict :: "real list list \<Rightarrow> exn + int list"
  predict_proba :: "real list list \<Rightarrow> exn + real list list"

text \<open>
  What the service calls and does not define: the file system (\<open>os.path.exists\<close>), the
  loader (\<open>joblib.load\<close>), the exception of an index out of range, and the decoding of a
  request body into \<open>WineData\<close> that FastAPI does before it calls a handler (the error
  list on failure).

  Modelled from the spec: \<open>get_target_names\<close> of \<open>data.py\<close>, which is not among the
  sources, gives the fixed ordered list of the N class labels known to the service; it is
  the field \<open>target_names\<close>.
\<close>

record env =
  path_exists :: "string \<Rightarrow> bool"
  joblib_load :: "string \<Rightarrow> exn + model"
  target_names :: "string list"
  index_error :: "int \<Rightarrow> nat \<Rightarrow> exn"
  validate :: "json \<Rightarrow> json + wine_data"

text \<open>
  \<open>xs[i]\<close>: an index from 0 up to the length selects from the front, a negative index
  down to minus the length selects from the end, and any other index raises.
\<close>

definition py_index :: "env \<Rightarrow> 'a list \<Rightarrow> int \<Rightarrow> exn + 'a" where
  "py_index env xs i =
     (if 0 \<le> i \<and> i < int (length xs) then Inr (xs ! nat i)
      else if i < 0 \<and> - int (length xs) \<le> i then Inr (xs ! nat (int (length xs) + i))
      else Inl (index_error env i (length xs)))"

section \<open>The service: scoring\<close>

definition possible_paths :: "string list" where
  "possible_paths = [''model/wine_model.pkl'', ''../model/wine_model.pkl'', ''./wine_model.pkl'']"

definition model_not_found :: exn where
  "model_not_found =
     Exn ''FileNotFoundError''
       ''Wine model not found. Please run train.py first to create the model.''"

text \<open>
  \<^verbatim>\<open>
  model_path = None
  for path in possible_paths:
      if os.path.exists(path):
          model_path = path
          break
  \<close>
\<close>

fun find_model_path :: "(string \<Rightarrow> bool) \<Rightarrow> string list \<Rightarrow> string option" where
  "find_model_path exists [] = None"
| "find_model_path exists (path # paths) =
     (if exists path then Some path else find_model_path exists paths)"

text \<open>
  \<^verbatim>\<open>
  def predict_data(X):
      ...
      if model_path is None:
          raise FileNotFoundError("Wine model not found. Please run train.py first to create the model.")
      model = joblib.load(model_path)
      y_pred = model.predict(X)
      return y_pred
  \<close>
\<close>

definition predict_data :: "env \<Rightarrow> real list list \<Rightarrow> exn + int list" where
  "predict_data env X =
     (case find_model_path (path_exists env) possible_paths of
        None \<Rightarrow> Inl model_not_found
      | Some model_path \<Rightarrow>
          (case joblib_load env model_path of
             Inl e \<Rightarrow> Inl e
           | Inr model \<Rightarrow> predict model X))"

text \<open>
  The dict comprehension
  \<^verbatim>\<open>{target_names[i]: float(prob) for i, prob in enumerate(y_proba[0])}\<close>
  with the index \<open>i\<close> and the dict built so far; a key that comes again keeps its place
  and takes the new value.
\<close>

fun probabilities_of ::
  "env \<Rightarrow> nat \<Rightarrow> real list \<Rightarrow> (string \<times> json) list \<Rightarrow> exn + (string \<times> json) list" where
  "probabilities_of env i [] acc = Inr acc"
| "probabilities_of env i (prob # probs) acc =
     (case py_index env (target_names env) (int i) of
        Inl e \<Rightarrow> Inl e
      | Inr name \<Rightarrow> probabilities_of env (Suc i) probs (AList.update name (JFloat prob) acc))"

text \<open>
  \<^verbatim>\<open>
  def predict_with_prob(X):
      ...
      model = joblib.load(model_path)
      y_pred = model.predict(X)
      y_proba = model.predict_proba(X)
      target_names = get_target_names()
      result = {
          'prediction': int(y_pred[0]),
          'class_name': target_names[y_pred[0]],
          'probabilities': {
              target_names[i]: float(prob)
              for i, prob in enumerate(y_proba[0])
          }
      }
      return result
  \<close>
\<close>

definition predict_with_prob :: "env \<Rightarrow> real list list \<Rightarrow> exn + json" where
  "predict_with_prob env X =
     (case find_model_path (path_exists env) possible_paths of
        None \<Rightarrow> Inl model_not_found
      | Some model_path \<Rightarrow>
          (case joblib_load env model_path of
             Inl e \<Rightarrow> Inl e
           | Inr model \<Rightarrow>
               (case predict model X of
                  Inl e \<Rightarrow> Inl e
                | Inr y_pred \<Rightarrow>
                    (case predict_proba model X of
                       Inl e \<Rightarrow> Inl e
                     | Inr y_proba \<Rightarrow>
                         (case py_index env y_pred 0 of
                            Inl e \<Rightarrow> Inl e
                          | Inr label \<Rightarrow>
                              (case py_index env (target_names env) label of
                                 Inl e \<Rightarrow> Inl e
                               | Inr name \<Rightarrow>
                                   (case py_index env y_proba 0 of
                                      Inl e \<Rightarrow> Inl e
                                    | Inr row \<Rightarrow>
                                        (case probabilities_of env 0 row [] of
                                           Inl e \<Rightarrow> Inl e
                                         | Inr probabilities \<Rightarrow>
                                             Inr (JDict [(''prediction'', JInt label),
                                                         (''class_name'', JStr name),
                                                         (''probabilities'',
                                                          JDict probabilities)])))))))))"

section \<open>The service: the endpoints\<close>

text \<open>The one-row matrix both handlers build from the request body.\<close>

definition features :: "wine_data \<Rightarrow> real list list" where
  "features wine_features =
     [[alcohol wine_features, malic_acid wine_features, ash wine_features,
       alcalinity_of_ash wine_features, magnesium wine_features,
       total_phenols wine_features, flavanoids wine_features,
       nonflavanoid_phenols wine_features, proanthocyanins wine_features,
       color_intensity wine_features, hue wine_features,
       od280_od315_of_diluted_wines wine_features, proline wine_features]]"

text \<open>
  A reply is the status and the JSON body. An \<open>HTTPException(status_code=500, detail=...)\<close>
  is sent as status 500 with the body \<open>{"detail": ...}\<close>.
  \<^verbatim>\<open>
  @app.post("/predict", response_model=WineResponse)
  async def predict_wine(wine_features: WineData):
      try:
          features = [[...]]
          prediction = predict_data(features)
          target_names = get_target_names()
          return WineResponse(
              prediction=int(prediction[0]),
              class_name=target_names[prediction[0]]
          )
      except Exception as e:
          raise HTTPException(status_code=500, detail=str(e))
  \<close>
\<close>

definition predict_wine :: "env \<Rightarrow> wine_data \<Rightarrow> int \<times> json" where
  "predict_wine env wine_features =
     (case (case predict_data env (features wine_features) of
              Inl e \<Rightarrow> Inl e
            | Inr prediction \<Rightarrow>
                (case py_index env prediction 0 of
                   Inl e \<Rightarrow> Inl e
                 | Inr label \<Rightarrow>
                     (case py_index env (target_names env) label of
                        Inl e \<Rightarrow> Inl e
                      | Inr name \<Rightarrow>
                          Inr (JDict [(''prediction'', JInt label),
                                      (''class_name'', JStr name)])))) of
        Inl e \<Rightarrow> (500, JDict [(''detail'', JStr (exn_str e))])
      | Inr body \<Rightarrow> (200, body))"

text \<open>
  \<^verbatim>\<open>
  @app.post("/predict-with-probability", response_model=WineResponseWithProba)
  async def predict_wine_with_probability(wine_features: WineData):
      try:
          features = [[...]]
          result = predict_with_prob(features)
          return WineResponseWithProba(**result)
      except Exception as e:
          raise HTTPException(status_code=500, detail=str(e))
  \<close>
\<close>

definition predict_wine_with_probability :: "env \<Rightarrow> wine_data \<Rightarrow> int \<times> json" where
  "predict_wine_with_probability env wine_features =
     (case predict_with_prob env (features wine_features) of
        Inl e \<Rightarrow> (500, JDict [(''detail'', JStr (exn_str e))])
      | Inr result \<Rightarrow> (200, result))"


section \<open>What the specification says of a prediction\<close>

text \<open>
  A class index that is a valid position of the list of class labels, an integer in
  \<open>[0, N)\<close>, with the class name at that position.
\<close>

definition valid_position :: "string list \<Rightarrow> int \<Rightarrow> string \<Rightarrow> bool" where
  "valid_position names class_index class_name \<longleftrightarrow>
     0 \<le> class_index \<and> class_index < int (length names) \<and> class_name = names ! nat class_index"

text \<open>
  A class index that Python accepts as an index of the list, an integer in \<open>[-N, N)\<close>,
  with the class name it selects: a negative index counts from the end.
\<close>

definition python_position :: "string list \<Rightarrow> int \<Rightarrow> string \<Rightarrow> bool" where
  "python_position names class_index class_name \<longleftrightarrow>
     - int (length names) \<le> class_index \<and> class_index < int (length names) \<and>
     class_name = names ! nat (if class_index < 0 then int (length names) + class_index
                               else class_index)"

section \<open>Some services\<close>

definition sample_wine :: wine_data where
  "sample_wine =
     \<lparr>alcohol = 13, malic_acid = 17/10, ash = 24/10, alcalinity_of_ash = 15,
      magnesium = 100, total_phenols = 28/10, flavanoids = 3, nonflavanoid_phenols = 3/10,
      proanthocyanins = 18/10, color_intensity = 5, hue = 1,
      od280_od315_of_diluted_wines = 3, proline = 1000\<rparr>"

definition out_of_range :: "int \<Rightarrow> nat \<Rightarrow> exn" where
  "out_of_range i n = Exn ''IndexError'' ''list index out of range''"

text \<open>A decoder for the examples: any dict decodes to the sample record, nothing else does.\<close>

definition not_decoded :: json where
  "not_decoded =
     JList [JDict [(''type'', JStr ''model_attributes_type''),
                   (''loc'', JList [JStr ''body'']),
                   (''msg'', JStr ''Input should be a valid dictionary or object to extract fields from'')]]"

definition decode_sample :: "json \<Rightarrow> json + wine_data" where
  "decode_sample body =
     (if is_dict body then Inr sample_wine else Inl not_decoded)"

text \<open>A model that answers class 1, and one whose label is -1.\<close>

definition middle_model :: model where
  "middle_model = \<lparr>predict = (\<lambda>X. Inr [1]), predict_proba = (\<lambda>X. Inr [[1/10, 8/10, 1/10]])\<rparr>"

definition last_model :: model where
  "last_model = \<lparr>predict = (\<lambda>X. Inr [-1]), predict_proba = (\<lambda>X. Inr [[0, 0, 1]])\<rparr>"


definition serving :: "model \<Rightarrow> env" where
  "serving m =
     \<lparr>path_exists = (\<lambda>path. path = ''../model/wine_model.pkl''),
      joblib_load = (\<lambda>path. Inr m),
      target_names = [''class_0'', ''class_1'', ''class_2''],
      index_error = out_of_range,
      validate = decode_sample\<rparr>"



section \<open>Properties of the normalisation\<close>

lemma normalize_batch_key:
  "map_of kvs ''input_batch'' = Some (JList recs) \<Longrightarrow>
   normalize_uploaded_json (JDict kvs) = Inr (JList recs)"
  by simp

lemma normalize_without_batch:
  "\<not> (\<exists>xs. map_of kvs ''input_batch'' = Some (JList xs)) \<Longrightarrow>
   normalize_uploaded_json (JDict kvs) =
     (case map_of kvs ''input'' of
        Some (JDict record) \<Rightarrow> Inr (JDict record)
      | _ \<Rightarrow> Inr (JDict kvs))"
  by (auto split: option.splits json.splits)

lemma normalize_raises_iff:
  "(\<exists>e. normalize_uploaded_json v = Inl e) \<longleftrightarrow> \<not> is_dict v \<and> \<not> is_list v"
  by (cases v) (auto split: option.splits json.splits)

text \<open>
  Claim C7. The four accepted shapes are normalised as follows: a dict whose
  \<open>input_batch\<close> key holds a list, and a bare list, give that ordered list of records;
  a dict whose \<open>input\<close> key holds a dict (and that has no list under \<open>input_batch\<close>,
  as is the case for \<open>{"input": {...}}\<close>) gives that single record; any other dict is
  taken as the flat feature record itself. Every value that is neither a dict nor a list
  raises the \<open>ValueError\<close>.
\<close>

theorem normalize_four_shapes:
  "(map_of batch ''input_batch'' = Some (JList recs) \<longrightarrow>
      normalize_uploaded_json (JDict batch) = Inr (JList recs))
   \<and> normalize_uploaded_json (JList bare) = Inr (JList bare)
   \<and> (\<not> (\<exists>xs. map_of single ''input_batch'' = Some (JList xs)) \<and>
      map_of single ''input'' = Some (JDict record) \<longrightarrow>
      normalize_uploaded_json (JDict single) = Inr (JDict record))
   \<and> (\<not> (\<exists>xs. map_of flat ''input_batch'' = Some (JList xs)) \<and>
      \<not> (\<exists>r. map_of flat ''input'' = Some (JDict r)) \<longrightarrow>
      normalize_uploaded_json (JDict flat) = Inr (JDict flat))
   \<and> (\<not> is_dict v \<and> \<not> is_list v \<longrightarrow>
      normalize_uploaded_json v = Inl not_recognized
      \<and> exn_class not_recognized = ''ValueError'')"
proof (intro conjI impI)
  assume "map_of batch ''input_batch'' = Some (JList recs)"
  then show "normalize_uploaded_json (JDict batch) = Inr (JList recs)"
    by (rule normalize_batch_key)
next
  show "normalize_uploaded_json (JList bare) = Inr (JList bare)" by simp
next
  assume h: "\<not> (\<exists>xs. map_of single ''input_batch'' = Some (JList xs)) \<and>
             map_of single ''input'' = Some (JDict record)"
  then have "\<not> (\<exists>xs. map_of single ''input_batch'' = Some (JList xs))" by blast
  from normalize_without_batch [OF this] h
  show "normalize_uploaded_json (JDict single) = Inr (JDict record)" by simp
next
  assume h: "\<not> (\<exists>xs. map_of flat ''input_batch'' = Some (JList xs)) \<and>
             \<not> (\<exists>r. map_of flat ''input'' = Some (JDict r))"
  then have "\<not> (\<exists>xs. map_of flat ''input_batch'' = Some (JList xs))" by blast
  from normalize_without_batch [OF this] h
  show "normalize_uploaded_json (JDict flat) = Inr (JDict flat)"
    by (auto split: option.splits json.splits)
next
  assume "\<not> is_dict v \<and> \<not> is_list v"
  then show "normalize_uploaded_json v = Inl not_recognized"
    by (cases v) auto
next
  show "exn_class not_recognized = ''ValueError''"
    by (simp add: not_recognized_def)
qed

theorem normalize_four_shapes_witness:
  "(map_of [(''input_batch'', JList [rec_a, rec_b])] ''input_batch'' = Some (JList [rec_a, rec_b])
      \<and> normalize_uploaded_json (JDict [(''input_batch'', JList [rec_a, rec_b])])
          = Inr (JList [rec_a, rec_b]))
   \<and> normalize_uploaded_json (JList [rec_a, rec_b]) = Inr (JList [rec_a, rec_b])
   \<and> (\<not> (\<exists>xs. map_of [(''input'', JDict [(''alcohol'', JFloat 13)])] ''input_batch''
                  = Some (JList xs))
      \<and> map_of [(''input'', JDict [(''alcohol'', JFloat 13)])] ''input''
          = Some (JDict [(''alcohol'', JFloat 13)])
      \<and> normalize_uploaded_json (JDict [(''input'', JDict [(''alcohol'', JFloat 13)])])
          = Inr (JDict [(''alcohol'', JFloat 13)]))
   \<and> (\<not> (\<exists>xs. map_of [(''alcohol'', JFloat 13)] ''input_batch'' = Some (JList xs))
      \<and> \<not> (\<exists>r. map_of [(''alcohol'', JFloat 13)] ''input'' = Some (JDict r))
      \<and> normalize_uploaded_json (JDict [(''alcohol'', JFloat 13)])
          = Inr (JDict [(''alcohol'', JFloat 13)]))
   \<and> (\<not> is_dict (JStr ''alcohol'') \<and> \<not> is_list (JStr ''alcohol'')
      \<and> normalize_uploaded_json (JStr ''alcohol'') = Inl not_recognized
      \<and> exn_class not_recognized = ''ValueError'')"
  using normalize_four_shapes
          [of "[(''input_batch'', JList [rec_a, rec_b])]" "[rec_a, rec_b]" "[rec_a, rec_b]"
              "[(''input'', JDict [(''alcohol'', JFloat 13)])]" "[(''alcohol'', JFloat 13)]"
              "[(''alcohol'', JFloat 13)]" "JStr ''alcohol''"]
  by simp

text \<open>
  Claim C10. A dict whose \<open>input\<close> key holds a list, not a dict, is returned whole, as if
  it were one flat feature record: the list under \<open>input\<close> is never taken out. When
  \<open>input_batch\<close> holds a list and \<open>input\<close> is present too, \<open>input_batch\<close> wins and its
  list is returned; so the first part is about the dicts with no list under
  \<open>input_batch\<close>.
\<close>

theorem input_list_is_not_extracted:
  "(map_of wrapper ''input'' = Some (JList xs) \<and>
    \<not> (\<exists>ys. map_of wrapper ''input_batch'' = Some (JList ys)) \<longrightarrow>
      normalize_uploaded_json (JDict wrapper) = Inr (JDict wrapper))
   \<and> (map_of both ''input_batch'' = Some (JList ys) \<and> map_of both ''input'' = Some x \<longrightarrow>
      normalize_uploaded_json (JDict both) = Inr (JList ys))"
proof (intro conjI impI)
  assume h: "map_of wrapper ''input'' = Some (JList xs) \<and>
             \<not> (\<exists>ys. map_of wrapper ''input_batch'' = Some (JList ys))"
  then have "\<not> (\<exists>ys. map_of wrapper ''input_batch'' = Some (JList ys))" by blast
  from normalize_without_batch [OF this] h
  show "normalize_uploaded_json (JDict wrapper) = Inr (JDict wrapper)" by simp
next
  assume "map_of both ''input_batch'' = Some (JList ys) \<and> map_of both ''input'' = Some x"
  then show "normalize_uploaded_json (JDict both) = Inr (JList ys)"
    by (simp add: normalize_batch_key)
qed

theorem input_list_is_not_extracted_witness:
  "(map_of [(''input'', JList [rec_a, rec_b])] ''input'' = Some (JList [rec_a, rec_b])
    \<and> \<not> (\<exists>ys. map_of [(''input'', JList [rec_a, rec_b])] ''input_batch'' = Some (JList ys))
    \<and> normalize_uploaded_json (JDict [(''input'', JList [rec_a, rec_b])])
        = Inr (JDict [(''input'', JList [rec_a, rec_b])]))
   \<and> (map_of [(''input'', JList [rec_a]), (''input_batch'', JList [rec_b, rec_c])] ''input_batch''
        = Some (JList [rec_b, rec_c])
    \<and> map_of [(''input'', JList [rec_a]), (''input_batch'', JList [rec_b, rec_c])] ''input''
        = Some (JList [rec_a])
    \<and> normalize_uploaded_json
          (JDict [(''input'', JList [rec_a]), (''input_batch'', JList [rec_b, rec_c])])
        = Inr (JList [rec_b, rec_c]))"
  using input_list_is_not_extracted
          [of "[(''input'', JList [rec_a, rec_b])]" "[rec_a, rec_b]"
              "[(''input'', JList [rec_a]), (''input_batch'', JList [rec_b, rec_c])]"
              "[rec_b, rec_c]" "JList [rec_a]"]
  by simp

section \<open>Properties of the batch client\<close>

subsection \<open>The signature test\<close>

lemma entry_matches_eq: "entry_matches render d = msg_contains render d"
  by (cases d) (simp_all add: msg_contains_def split: option.splits)

lemma scan_detail_list_ex: "scan_detail render ds = list_ex (msg_contains render) ds"
  by (induction ds) (simp_all add: entry_matches_eq)

lemma no_msg_in_strings: "\<not> list_ex (msg_contains render) (map (\<lambda>x. JStr (f x)) xs)"
  by (induction xs) (simp_all add: msg_contains_def)

lemma should_fallback_iff: "should_fallback render r = has_signature render r"
proof (cases "resp_json r")
  case None
  then show ?thesis by (simp add: should_fallback_def has_signature_def)
next
  case (Some j)
  show ?thesis
  proof (cases j)
    case (JDict err)
    show ?thesis
    proof (cases "map_of err ''detail''")
      case None
      with Some JDict show ?thesis by (simp add: should_fallback_def has_signature_def)
    next
      case (Some d)
      with \<open>resp_json r = Some j\<close> JDict show ?thesis
        by (cases d)
           (simp_all add: should_fallback_def has_signature_def scan_detail_list_ex
              no_msg_in_strings)
    qed
  qed (simp_all add: Some should_fallback_def has_signature_def)
qed

subsection \<open>Round trips and the log\<close>

lemma trip_sel [simp]:
  "rt_url (trip endpoint payload out secs) = FASTAPI_BACKEND_ENDPOINT @ endpoint"
  "rt_payload (trip endpoint payload out secs) = payload"
  "rt_timeout (trip endpoint payload out secs) = 15"
  "rt_outcome (trip endpoint payload out secs) = out"
  "rt_seconds (trip endpoint payload out secs) = secs"
  by (simp_all add: trip_def)

lemma measured_trip [simp]:
  "measured (trip endpoint payload (Raised e) secs) = 0"
  "measured (trip endpoint payload (Responded r) secs) = secs"
  by (simp_all add: measured_def)

lemma call_api_Raised:
  "post (FASTAPI_BACKEND_ENDPOINT @ endpoint) payload 15 w = ((Raised e, secs), w') \<Longrightarrow>
   call_api post endpoint payload (w, made) =
     (Inl e, (w', made @ [trip endpoint payload (Raised e) secs]))"
  by (simp add: call_api_def trip_def)

lemma call_api_Responded:
  "post (FASTAPI_BACKEND_ENDPOINT @ endpoint) payload 15 w = ((Responded r, secs), w') \<Longrightarrow>
   call_api post endpoint payload (w, made) =
     (Inr (r, secs), (w', made @ [trip endpoint payload (Responded r) secs]))"
  by (simp add: call_api_def trip_def)

subsection \<open>The fallback loop\<close>


subsection \<open>The scripted service\<close>

lemma has_signature_rejected: "has_signature render rejected"
  by (simp add: has_signature_def rejected_def object_expected_def msg_contains_def
        sublist_Cons_right)

lemma rejected_sel:
  "status_code rejected = 422" "resp_json rejected = Some object_expected"
  by (simp_all add: rejected_def)


lemma server_error_sel:
  "status_code server_error = 500" "resp_json server_error = None"
  "resp_text server_error = ''Internal Server Error''"
  by (simp_all add: server_error_def)


lemma scripted_empty:
  "try_batch_with_fallback scripted render ep [] (0, []) =
     ((True, JList [], 1/2), (1, [trip ep (JList []) (Responded rejected) (1/2)]))"
  by (simp add: try_batch_with_fallback_def call_api_def scripted_def should_fallback_iff
        has_signature_rejected rejected_sel trip_def)

subsection \<open>The paths of the batch client\<close>

lemma try_batch_Raised:
  assumes "post (FASTAPI_BACKEND_ENDPOINT @ endpoint) (JList records) 15 w = ((Raised e, secs), w1)"
  shows "try_batch_with_fallback post render endpoint records (w, made) =
           ((False, JStr (''Request failed: '' @ exn_str e), 0),
            (w1, made @ [trip endpoint (JList records) (Raised e) secs]))"
  using assms by (simp add: try_batch_with_fallback_def call_api_Raised)

lemma try_batch_200:
  assumes "post (FASTAPI_BACKEND_ENDPOINT @ endpoint) (JList records) 15 w = ((Responded r, secs), w1)"
      and "status_code r = 200"
  shows "try_batch_with_fallback post render endpoint records (w, made) =
           ((True, (case resp_json r of Some j \<Rightarrow> j
                    | None \<Rightarrow> JDict [(''raw_text'', JStr (resp_text r))]), secs),
            (w1, made @ [trip endpoint (JList records) (Responded r) secs]))"
  using assms by (simp add: try_batch_with_fallback_def call_api_Responded)

lemma try_batch_fallback:
  assumes "post (FASTAPI_BACKEND_ENDPOINT @ endpoint) (JList records) 15 w = ((Responded r, secs), w1)"
      and "status_code r = 422" and "has_signature render r"
  shows "try_batch_with_fallback post render endpoint records (w, made) =
           (case fallback_loop post endpoint records [] secs
                   (w1, made @ [trip endpoint (JList records) (Responded r) secs]) of
              ((aggregated, elapsed_total), s) \<Rightarrow> ((True, JList aggregated, elapsed_total), s))"
  using assms
  by (simp add: try_batch_with_fallback_def call_api_Responded should_fallback_iff)

lemma try_batch_failure:
  assumes "post (FASTAPI_BACKEND_ENDPOINT @ endpoint) (JList records) 15 w = ((Responded r, secs), w1)"
      and "status_code r \<noteq> 200" and "\<not> (status_code r = 422 \<and> has_signature render r)"
  shows "try_batch_with_fallback post render endpoint records (w, made) =
           ((False, (case resp_json r of Some j \<Rightarrow> j | None \<Rightarrow> JStr (resp_text r)), secs),
            (w1, made @ [trip endpoint (JList records) (Responded r) secs]))"
  using assms
  by (auto simp add: try_batch_with_fallback_def call_api_Responded should_fallback_iff)


section \<open>The claims on the batch client\<close>









text \<open>
  Claim C9, as the code has it. For an empty list of records the optimistic batch request
  is still made, with the empty list as payload, and it is the only request. A response
  with status 200 is passed through as success; a 422 with the signature starts the
  fallback loop over no records, so the result is success with an empty list and the
  error payload is dropped; any other response is returned as failure with its error
  payload, and a transport failure as failure with its text.
\<close>

theorem empty_batch_takes_the_general_path:
  assumes "post (FASTAPI_BACKEND_ENDPOINT @ endpoint) (JList []) 15 w = ((out, secs), w1)"
  shows "try_batch_with_fallback post render endpoint [] (w, []) =
     ((case out of
         Raised e \<Rightarrow> (False, JStr (''Request failed: '' @ exn_str e), 0)
       | Responded r \<Rightarrow>
           if status_code r = 200
           then (True, (case resp_json r of
                          Some j \<Rightarrow> j
                        | None \<Rightarrow> JDict [(''raw_text'', JStr (resp_text r))]), secs)
           else if status_code r = 422 \<and> has_signature render r
           then (True, JList [], secs)
           else (False, (case resp_json r of Some j \<Rightarrow> j | None \<Rightarrow> JStr (resp_text r)), secs)),
      (w1, [trip endpoint (JList []) out secs]))"
proof (cases out)
  case (Raised e)
  from try_batch_Raised [of post endpoint "[]" w e secs w1 render "[]"] assms Raised
  show ?thesis by simp
next
  case (Responded r)
  consider (ok) "status_code r = 200"
    | (fallback) "status_code r \<noteq> 200" "status_code r = 422 \<and> has_signature render r"
    | (failure) "status_code r \<noteq> 200" "\<not> (status_code r = 422 \<and> has_signature render r)"
    by blast
  then show ?thesis
  proof cases
    case ok
    from try_batch_200 [of post endpoint "[]" w r secs w1 render "[]"] assms Responded ok
    show ?thesis by simp
  next
    case fallback
    from try_batch_fallback [of post endpoint "[]" w r secs w1 render "[]"] assms Responded fallback
    show ?thesis by simp
  next
    case failure
    from try_batch_failure [of post endpoint "[]" w r secs w1 render "[]"] assms Responded failure
    show ?thesis by auto
  qed
qed

theorem empty_batch_takes_the_general_path_witness:
  "failing (FASTAPI_BACKEND_ENDPOINT @ ''/predict-with-probability'') (JList []) 15 ()
     = ((Responded server_error, 1/8), ())
   \<and> try_batch_with_fallback failing no_render ''/predict-with-probability'' [] ((), []) =
       ((False, JStr ''Internal Server Error'', 1/8),
        ((), [trip ''/predict-with-probability'' (JList []) (Responded server_error) (1/8)]))"
proof -
  have h: "failing (FASTAPI_BACKEND_ENDPOINT @ ''/predict-with-probability'') (JList []) 15 ()
     = ((Responded server_error, 1/8), ())"
    by (simp add: failing_def)
  from empty_batch_takes_the_general_path
         [of failing "''/predict-with-probability''" "()" "Responded server_error" "1/8" "()"
             no_render, OF h]
  show ?thesis using h by (simp add: server_error_sel)
qed

text \<open>
  The response to an empty batch is not always passed through: the service that rejects a
  list with 422 and the signature answers the empty list so, and the client returns
  success with an empty list instead of the error payload it received.
\<close>

theorem empty_batch_rejection_becomes_success:
  "try_batch_with_fallback scripted no_render ''/predict-with-probability'' [] (0, []) =
     ((True, JList [], 1/2),
      (1, [trip ''/predict-with-probability'' (JList []) (Responded rejected) (1/2)]))
   \<and> status_code rejected = 422
   \<and> resp_json rejected = Some object_expected
   \<and> object_expected \<noteq> JList []"
  by (simp add: scripted_empty rejected_sel object_expected_def)

section \<open>Properties of the service\<close>

subsection \<open>Indexing and the handlers\<close>

lemma py_index_Inr:
  "py_index env xs i = Inr x \<Longrightarrow>
     - int (length xs) \<le> i \<and> i < int (length xs)
     \<and> x = xs ! nat (if i < 0 then int (length xs) + i else i)"
  by (auto simp: py_index_def split: if_splits)

lemma py_index_position:
  "py_index env names label = Inr name \<Longrightarrow> python_position names label name"
  by (drule py_index_Inr) (simp add: python_position_def)

lemma python_position_nonneg:
  "python_position names label name \<Longrightarrow> 0 \<le> label \<Longrightarrow> valid_position names label name"
  by (simp add: python_position_def valid_position_def)

lemma predict_wine_200:
  assumes "predict_wine env wine_features = (200, body)"
  shows "\<exists>label name. body = JDict [(''prediction'', JInt label), (''class_name'', JStr name)]
           \<and> python_position (target_names env) label name"
  using assms
  by (auto simp: predict_wine_def split: sum.splits dest: py_index_position)

lemma predict_with_prob_Inr:
  assumes "predict_with_prob env X = Inr body"
  shows "\<exists>label name probabilities.
           body = JDict [(''prediction'', JInt label), (''class_name'', JStr name),
                         (''probabilities'', JDict probabilities)]
           \<and> python_position (target_names env) label name"
  using assms
  by (auto simp: predict_with_prob_def split: option.splits sum.splits dest: py_index_position)

lemma predict_wine_with_probability_200:
  assumes "predict_wine_with_probability env wine_features = (200, body)"
  shows "\<exists>label name probabilities.
           body = JDict [(''prediction'', JInt label), (''class_name'', JStr name),
                         (''probabilities'', JDict probabilities)]
           \<and> python_position (target_names env) label name"
  using assms predict_with_prob_Inr [of env "features wine_features" body]
  by (auto simp: predict_wine_with_probability_def split: sum.splits)




subsection \<open>The example services\<close>

lemma find_serving:
  "find_model_path (path_exists (serving m)) possible_paths = Some ''../model/wine_model.pkl''"
  by (simp add: serving_def possible_paths_def)

lemma serving_sel:
  "joblib_load (serving m) path = Inr m"
  "target_names (serving m) = [''class_0'', ''class_1'', ''class_2'']"
  "index_error (serving m) = out_of_range"
  "validate (serving m) = decode_sample"
  by (simp_all add: serving_def)

lemma predict_wine_middle:
  "predict_wine (serving middle_model) sample_wine =
     (200, JDict [(''prediction'', JInt 1), (''class_name'', JStr ''class_1'')])"
  by (simp add: predict_wine_def predict_data_def find_serving serving_sel middle_model_def
        py_index_def)

lemma predict_wine_last:
  "predict_wine (serving last_model) sample_wine =
     (200, JDict [(''prediction'', JInt (-1)), (''class_name'', JStr ''class_2'')])"
  by (simp add: predict_wine_def predict_data_def find_serving serving_sel last_model_def
        py_index_def)

lemma predict_proba_middle:
  "predict_wine_with_probability (serving middle_model) sample_wine =
     (200, JDict [(''prediction'', JInt 1), (''class_name'', JStr ''class_1''),
                  (''probabilities'',
                   JDict [(''class_0'', JFloat (1/10)), (''class_1'', JFloat (8/10)),
                          (''class_2'', JFloat (1/10))])])"
  by (simp add: predict_wine_with_probability_def predict_with_prob_def find_serving serving_sel
        middle_model_def py_index_def)




section \<open>The claims on the service\<close>

text \<open>
  Claim C8, as the code has it. In every successful response of \<open>/predict\<close> and of
  \<open>/predict-with-probability\<close> the class name is the element of the list of class
  labels that Python indexing selects at the class index, and the class index is an
  integer in \<open>[-N, N)\<close>: a negative label of the model selects from the end of the list
  and is returned as it is. A class index that is not negative is a valid position, in
  \<open>[0, N)\<close>, and the class name is the label at that position.
\<close>

theorem class_name_follows_python_indexing:
  "(predict_wine env wine_features = (200, body) \<longrightarrow>
      (\<exists>label name.
          body = JDict [(''prediction'', JInt label), (''class_name'', JStr name)]
        \<and> python_position (target_names env) label name
        \<and> (0 \<le> label \<longrightarrow> valid_position (target_names env) label name)))
   \<and> (predict_wine_with_probability env2 wine_features2 = (200, body2) \<longrightarrow>
      (\<exists>label name probabilities.
          body2 = JDict [(''prediction'', JInt label), (''class_name'', JStr name),
                         (''probabilities'', JDict probabilities)]
        \<and> python_position (target_names env2) label name
        \<and> (0 \<le> label \<longrightarrow> valid_position (target_names env2) label name)))"
proof (intro conjI impI)
  assume "predict_wine env wine_features = (200, body)"
  from predict_wine_200 [OF this]
  show "\<exists>label name.
          body = JDict [(''prediction'', JInt label), (''class_name'', JStr name)]
        \<and> python_position (target_names env) label name
        \<and> (0 \<le> label \<longrightarrow> valid_position (target_names env) label name)"
    using python_position_nonneg by blast
next
  assume "predict_wine_with_probability env2 wine_features2 = (200, body2)"
  from predict_wine_with_probability_200 [OF this]
  show "\<exists>label name probabilities.
          body2 = JDict [(''prediction'', JInt label), (''class_name'', JStr name),
                         (''probabilities'', JDict probabilities)]
        \<and> python_position (target_names env2) label name
        \<and> (0 \<le> label \<longrightarrow> valid_position (target_names env2) label name)"
    using python_position_nonneg by blast
qed

theorem class_name_follows_python_indexing_witness:
  "predict_wine (serving middle_model) sample_wine =
     (200, JDict [(''prediction'', JInt 1), (''class_name'', JStr ''class_1'')])
   \<and> python_position (target_names (serving middle_model)) 1 ''class_1''
   \<and> valid_position (target_names (serving middle_model)) 1 ''class_1''
   \<and> predict_wine_with_probability (serving middle_model) sample_wine =
     (200, JDict [(''prediction'', JInt 1), (''class_name'', JStr ''class_1''),
                  (''probabilities'',
                   JDict [(''class_0'', JFloat (1/10)), (''class_1'', JFloat (8/10)),
                          (''class_2'', JFloat (1/10))])])"
proof -
  note run = predict_wine_middle predict_proba_middle
  from class_name_follows_python_indexing
         [of "serving middle_model" sample_wine
             "JDict [(''prediction'', JInt 1), (''class_name'', JStr ''class_1'')]"
             "serving middle_model" sample_wine
             "JDict [(''prediction'', JInt 1), (''class_name'', JStr ''class_1''),
                  (''probabilities'',
                   JDict [(''class_0'', JFloat (1/10)), (''class_1'', JFloat (8/10)),
                          (''class_2'', JFloat (1/10))])]"]
  have "python_position (target_names (serving middle_model)) 1 ''class_1''
        \<and> valid_position (target_names (serving middle_model)) 1 ''class_1''"
    using run by auto
  with run show ?thesis by blast
qed

text \<open>
  The class index of a successful response need not be in \<open>[0, N)\<close>: for a model whose
  label is -1, \<open>target_names[-1]\<close> is the last label and the response is a success
  with prediction -1.
\<close>

theorem class_index_can_be_negative:
  "predict_wine (serving last_model) sample_wine =
     (200, JDict [(''prediction'', JInt (-1)), (''class_name'', JStr ''class_2'')])
   \<and> \<not> valid_position (target_names (serving last_model)) (-1) ''class_2''"
  by (simp add: predict_wine_last valid_position_def)





end
